theory Spec2Isabelle
  imports Complex_Main "HOL-Library.Sublist" "HOL-Library.Multiset"
begin

section \<open>Strings\<close>

text \<open>
  A JavaScript string is modelled as a \<open>string\<close>: a list of code units, each taken in
  the range U+0000 .. U+00FF.  \<open>code_unit c\<close> is the numeric value of a code unit.
\<close>

definition code_unit :: "char \<Rightarrow> nat" where
  "code_unit c = of_char c"

text \<open>\<open>String.prototype.toLowerCase\<close> on one code unit of that range.\<close>

definition lower_char :: "char \<Rightarrow> char" where
  "lower_char c =
     (if (65 \<le> code_unit c \<and> code_unit c \<le> 90)
         \<or> (192 \<le> code_unit c \<and> code_unit c \<le> 222 \<and> code_unit c \<noteq> 215)
      then char_of (code_unit c + 32) else c)"

definition toLowerCase :: "string \<Rightarrow> string" where
  "toLowerCase s = map lower_char s"

text \<open>\<open>text.includes(key)\<close>: \<open>key\<close> occurs in \<open>text\<close> as a contiguous substring.\<close>

fun includes_str :: "string \<Rightarrow> string \<Rightarrow> bool" where
  "includes_str [] key = (key = [])"
| "includes_str (c # cs) key = (prefix key (c # cs) \<or> includes_str cs key)"

text \<open>Truthiness of a value that is a string, \<open>null\<close> or \<open>undefined\<close>.\<close>

fun truthy :: "string option \<Rightarrow> bool" where
  "truthy None = False"
| "truthy (Some s) = (s \<noteq> [])"

text \<open>\<open>value || ''\<close> for such a value.\<close>

fun or_empty :: "string option \<Rightarrow> string" where
  "or_empty None = []"
| "or_empty (Some s) = s"

section \<open>Numbers\<close>

text \<open>
  A JavaScript number is a double.  The doubles that arise here are held as a pair
  \<open>(m, k)\<close> of integers standing for \<open>m * 2 ^ k\<close>; they lie far inside the range of
  normal doubles, so neither overflow nor gradual underflow is modelled.

  \<open>exponent_of n a b\<close> is the binary exponent \<open>e\<close> of the positive fraction \<open>a / b\<close>,
  that is \<open>2 ^ e \<le> a / b < 2 ^ (e + 1)\<close>; \<open>n\<close> bounds the search and 1100 covers the
  exponents of all doubles.
\<close>

type_synonym double = "int \<times> int"

fun exponent_of :: "nat \<Rightarrow> int \<Rightarrow> int \<Rightarrow> int" where
  "exponent_of 0 a b = 0"
| "exponent_of (Suc n) a b =
     (if a < b then exponent_of n (2 * a) b - 1
      else if 2 * b \<le> a then exponent_of n a (2 * b) + 1
      else 0)"

text \<open>The integer nearest to \<open>a / b\<close> for \<open>b > 0\<close>, a tie going to the even one.\<close>

definition round_even_div :: "int \<Rightarrow> int \<Rightarrow> int" where
  "round_even_div a b =
     (let m = a div b; r = a mod b in
      if 2 * r < b then m else if b < 2 * r then m + 1 else if even m then m else m + 1)"

text \<open>
  The double nearest to the fraction \<open>a / b\<close> (\<open>b > 0\<close>), as IEEE 754 rounds the exact
  result of an operation: 53 significant bits, a tie going to the even mantissa.
\<close>

definition round_frac :: "int \<Rightarrow> int \<Rightarrow> double" where
  "round_frac a b =
     (if a = 0 then (0, 0)
      else let k = exponent_of 1100 \<bar>a\<bar> b - 52 in
        if 0 \<le> k then (round_even_div a (b * 2 ^ nat k), k)
        else (round_even_div (a * 2 ^ nat (- k)) b, k))"

text \<open>\<open>a / b\<close> for two integers below \<open>2 ^ 53\<close>, which are doubles themselves.\<close>

definition double_div :: "int \<Rightarrow> int \<Rightarrow> double" where
  "double_div a b = round_frac a b"

text \<open>\<open>d * c\<close> for a double \<open>d\<close> and such an integer \<open>c\<close>.\<close>

definition double_times :: "double \<Rightarrow> int \<Rightarrow> double" where
  "double_times d c =
     (case d of (m, k) \<Rightarrow>
        if 0 \<le> k then round_frac (m * c * 2 ^ nat k) 1
        else round_frac (m * c) (2 ^ nat (- k)))"

text \<open>
  \<open>Math.round\<close> of a double: the greatest integer not above \<open>d + 1 / 2\<close>, so that a tie
  goes up.
\<close>

definition js_round :: "double \<Rightarrow> int" where
  "js_round d =
     (case d of (m, k) \<Rightarrow>
        if 0 \<le> k then m * 2 ^ nat k
        else (2 * m + 2 ^ nat (- k)) div (2 * 2 ^ nat (- k)))"

text \<open>
  \<open>holds_from P a n\<close>: the property \<open>P\<close> holds of the \<open>n\<close> integers from \<open>a\<close> on; it
  serves to settle a property of the doubles on a finite range by computation.
\<close>

fun holds_from :: "(int \<Rightarrow> bool) \<Rightarrow> int \<Rightarrow> nat \<Rightarrow> bool" where
  "holds_from P a 0 = True"
| "holds_from P a (Suc n) = (P a \<and> holds_from P (a + 1) n)"

text \<open>The same rounding rule applied to an exact rational, for comparison.\<close>

definition round_half_up :: "rat \<Rightarrow> int" where
  "round_half_up x = \<lfloor>x + 1 / 2\<rfloor>"

section \<open>The analyzer's output\<close>

datatype platform_tag =
  NoCode | Crm | ProjectManagement | Ecommerce | Automation | Analytics | Communication
  | Unknown

record platform_type_t =
  type_tag :: platform_tag
  confidence :: nat
  keywords_found :: nat

record business_indicators_t =
  has_customers :: bool
  customer_count :: "string option"
  has_funding :: bool
  has_team_page :: bool
  has_careers :: bool
  has_press :: bool
  has_case_studies :: bool
  growth_indicators :: "string list"

datatype pricing_model_t = Subscription | PerUser

record pricing_info_t =
  has_pricing :: bool
  pricing_model :: "pricing_model_t option"
  price_indicators :: "string list"

record content_analysis_t =
  has_api :: bool
  has_developers :: bool
  has_enterprise :: bool
  has_pricing :: bool

text \<open>
  The object returned by \<open>analyzeCompanyWebsite\<close>: every field may be absent (the
  empty object has none).  \<open>website\<close> is read by the scorer although the analyzer
  never sets it.
\<close>

record website_analysis =
  title :: "string option"
  description :: "string option"
  website :: "string option"
  platform_type :: "platform_type_t option"
  business_indicators :: "business_indicators_t option"
  tech_stack :: "(string list \<times> string list \<times> string list \<times> string list) option"
  pricing_info :: "pricing_info_t option"
  content_analysis :: "content_analysis_t option"

definition empty_analysis :: website_analysis where
  "empty_analysis =
     \<lparr>title = None, description = None, website = None, platform_type = None,
      business_indicators = None, tech_stack = None, pricing_info = None,
      content_analysis = None\<rparr>"

section \<open>The fit scorer\<close>

record breakdown_t =
  platform_recognition :: int
  platform_type_points :: "int option"
  business_points :: int
  technical_fit :: int
  pricing_points :: int
  growth_points :: int

record scoring_result =
  total_score :: int
  breakdown :: breakdown_t
  max_possible :: int
  percentage :: int

definition majorPlatforms :: "(string \<times> int) list" where
  "majorPlatforms =
     [(''bubble'', 20), (''webflow'', 20), (''airtable'', 18), (''zapier'', 18),
      (''notion'', 15), (''outsystems'', 18), (''adalo'', 15), (''glide'', 12),
      (''retool'', 18), (''monday.com'', 15)]"

text \<open>The loop over \<open>Object.entries(majorPlatforms)\<close>, leaving at the first hit.\<close>

fun recognition :: "(string \<times> int) list \<Rightarrow> string \<Rightarrow> string \<Rightarrow> int" where
  "recognition [] companyName websiteUrl = 0"
| "recognition ((platform, boost) # rest) companyName websiteUrl =
     (if includes_str companyName platform \<or> includes_str websiteUrl platform then boost
      else recognition rest companyName websiteUrl)"

text \<open>\<open>platformScore[type] || 5\<close>.\<close>

fun platformScore :: "platform_tag \<Rightarrow> int" where
  "platformScore NoCode = 30"
| "platformScore Crm = 25"
| "platformScore ProjectManagement = 20"
| "platformScore Ecommerce = 20"
| "platformScore Automation = 25"
| "platformScore Analytics = 15"
| "platformScore _ = 5"

text \<open>\<open>obj?.flag\<close> used as a condition: false when the object is absent.\<close>

definition flag :: "'a option \<Rightarrow> ('a \<Rightarrow> bool) \<Rightarrow> bool" where
  "flag obj f = (case obj of None \<Rightarrow> False | Some x \<Rightarrow> f x)"

definition businessScore :: "website_analysis \<Rightarrow> int" where
  "businessScore wa =
     (if flag (business_indicators wa) has_customers then 10 else 0)
   + (if flag (business_indicators wa) has_funding then 15 else 0)
   + (if flag (business_indicators wa) has_careers then 10 else 0)
   + (if flag (business_indicators wa) has_case_studies then 5 else 0)"

definition techScore :: "website_analysis \<Rightarrow> int" where
  "techScore wa =
     (if flag (content_analysis wa) has_api then 15 else 0)
   + (if flag (content_analysis wa) has_developers then 10 else 0)
   + (if flag (content_analysis wa) has_enterprise then 5 else 0)"

definition pricingScore :: "website_analysis \<Rightarrow> int" where
  "pricingScore wa =
     (if flag (pricing_info wa) pricing_info_t.has_pricing then 10 else 0)
   + (if flag (pricing_info wa) (\<lambda>p. pricing_model p = Some Subscription) then 5 else 0)
   + (if flag (pricing_info wa) (\<lambda>p. ''enterprise_pricing'' \<in> set (price_indicators p))
      then 10 else 0)"

text \<open>
  \<open>Math.min(growth_indicators?.length * 3 || 0, 10)\<close>: an absent list gives \<open>NaN || 0\<close>,
  that is 0.
\<close>

definition growthScore :: "website_analysis \<Rightarrow> int" where
  "growthScore wa =
     min (case business_indicators wa of
            None \<Rightarrow> 0
          | Some b \<Rightarrow> int (length (growth_indicators b)) * 3) 10"

definition typeScore :: "website_analysis \<Rightarrow> int option" where
  "typeScore wa = map_option (\<lambda>p. platformScore (type_tag p)) (platform_type wa)"

text \<open>What a factor adds to the running score: nothing when it is not written.\<close>

fun contribution :: "int option \<Rightarrow> int" where
  "contribution None = 0"
| "contribution (Some t) = t"

definition recognitionBoost :: "website_analysis \<Rightarrow> int" where
  "recognitionBoost wa =
     recognition majorPlatforms (toLowerCase (or_empty (title wa)))
       (toLowerCase (or_empty (website wa)))"

text \<open>
  \<open>scoreCompanyFit\<close>.  The running \<open>score\<close> is the sum of what each step adds;
  \<open>breakdown.platform_type\<close> is only written when the analysis has a platform type.
\<close>

definition score_sum :: "website_analysis \<Rightarrow> int" where
  "score_sum wa =
     recognitionBoost wa
   + contribution (typeScore wa)
   + min (businessScore wa) 25
   + min (techScore wa) 20
   + min (pricingScore wa) 15
   + growthScore wa"

definition scoreCompanyFit :: "website_analysis \<Rightarrow> scoring_result" where
  "scoreCompanyFit wa =
     \<lparr>total_score = score_sum wa,
      breakdown =
        \<lparr>platform_recognition = recognitionBoost wa,
         platform_type_points = typeScore wa,
         business_points = min (businessScore wa) 25,
         technical_fit = min (techScore wa) 20,
         pricing_points = min (pricingScore wa) 15,
         growth_points = growthScore wa\<rparr>,
      max_possible = 120,
      percentage = js_round (double_times (double_div (score_sum wa) 120) 100)\<rparr>"

section \<open>The recommendation tier\<close>

datatype recommendation_t = HOT_PROSPECT | WARM_PROSPECT | COLD_PROSPECT | NOT_QUALIFIED

definition recommendation_of :: "int \<Rightarrow> recommendation_t" where
  "recommendation_of s =
     (if s \<ge> 80 then HOT_PROSPECT
      else if s \<ge> 60 then WARM_PROSPECT
      else if s \<ge> 40 then COLD_PROSPECT
      else NOT_QUALIFIED)"

section \<open>Regular expressions\<close>

text \<open>
  The regular expressions of the source are written as terms of \<open>regex\<close> and run by a
  backtracking matcher.  \<open>run r s\<close> lists, in the order in which a backtracking engine
  tries them, the remainders of \<open>s\<close> after each way \<open>r\<close> can match a prefix of \<open>s\<close>.
  \<open>Star\<close> is the greedy \<open>*\<close>: one more round first, an empty round being refused.
\<close>

datatype regex =
  Cls "char \<Rightarrow> bool"
  | Eps
  | Seq regex regex
  | Alt regex regex
  | Star regex

fun rounds :: "(string \<Rightarrow> string list) \<Rightarrow> nat \<Rightarrow> string \<Rightarrow> string list" where
  "rounds f 0 s = [s]"
| "rounds f (Suc n) s =
     concat (map (\<lambda>t. if length t < length s then rounds f n t else []) (f s)) @ [s]"

primrec run :: "regex \<Rightarrow> string \<Rightarrow> string list" where
  "run (Cls P) = (\<lambda>s. case s of [] \<Rightarrow> [] | c # cs \<Rightarrow> if P c then [cs] else [])"
| "run Eps = (\<lambda>s. [s])"
| "run (Seq a b) = (\<lambda>s. concat (map (run b) (run a s)))"
| "run (Alt a b) = (\<lambda>s. run a s @ run b s)"
| "run (Star a) = (\<lambda>s. rounds (run a) (length s) s)"

definition Plus :: "regex \<Rightarrow> regex" where
  "Plus r = Seq r (Star r)"

definition Opt :: "regex \<Rightarrow> regex" where
  "Opt r = Alt r Eps"

definition Lit :: "char \<Rightarrow> regex" where
  "Lit c = Cls (\<lambda>x. x = c)"


definition Word :: "string \<Rightarrow> regex" where
  "Word w = foldr (\<lambda>c r. Seq (Lit c) r) w Eps"


text \<open>\<open>/^r$/.test(s)\<close>: some way of matching \<open>r\<close> uses up the whole of \<open>s\<close>.\<close>

definition test_whole :: "regex \<Rightarrow> string \<Rightarrow> bool" where
  "test_whole r s = ([] \<in> set (run r s))"

text \<open>
  The first match of an unanchored \<open>r\<close> in \<open>s\<close>, as (text before, matched text, text
  after): the leftmost start at which \<open>r\<close> matches, and there the first way it does.
\<close>

fun search :: "regex \<Rightarrow> string \<Rightarrow> (string \<times> string \<times> string) option" where
  "search r [] = (case run r [] of [] \<Rightarrow> None | t # _ \<Rightarrow> Some ([], [], []))"
| "search r (c # cs) =
     (case run r (c # cs) of
        t # _ \<Rightarrow> Some ([], take (length (c # cs) - length t) (c # cs), t)
      | [] \<Rightarrow> map_option (\<lambda>(b, m, a). (c # b, m, a)) (search r cs))"

text \<open>\<open>s.replace(r, '')\<close> without the \<open>g\<close> flag: the first match is removed.\<close>

definition remove_first :: "regex \<Rightarrow> string \<Rightarrow> string" where
  "remove_first r s = (case search r s of None \<Rightarrow> s | Some (b, m, a) \<Rightarrow> b @ a)"


text \<open>The character classes used by the source.\<close>

definition between :: "char \<Rightarrow> char \<Rightarrow> char \<Rightarrow> bool" where
  "between lo hi c = (code_unit lo \<le> code_unit c \<and> code_unit c \<le> code_unit hi)"

definition is_space :: "char \<Rightarrow> bool" where
  "is_space c = (code_unit c \<in> {9, 10, 11, 12, 13, 32, 160})"

definition is_letter :: "char \<Rightarrow> bool" where
  "is_letter c = (between CHR ''a'' CHR ''z'' c \<or> between CHR ''A'' CHR ''Z'' c)"

definition is_digit :: "char \<Rightarrow> bool" where
  "is_digit c = between CHR ''0'' CHR ''9'' c"

definition is_word :: "char \<Rightarrow> bool" where
  "is_word c = (is_letter c \<or> is_digit c \<or> c = CHR ''_'')"

text \<open>\<open>trim\<close>, \<open>split\<close> on one character, \<open>join\<close>.\<close>

definition trim :: "string \<Rightarrow> string" where
  "trim s = rev (dropWhile is_space (rev (dropWhile is_space s)))"

fun split :: "char \<Rightarrow> string \<Rightarrow> string list" where
  "split sep [] = [[]]"
| "split sep (c # cs) =
     (if c = sep then [] # split sep cs
      else case split sep cs of [] \<Rightarrow> [[c]] | w # ws \<Rightarrow> (c # w) # ws)"

fun join :: "string \<Rightarrow> string list \<Rightarrow> string" where
  "join sep [] = []"
| "join sep [w] = w"
| "join sep (w # ws) = w @ sep @ join sep ws"

section \<open>Platform-type classification\<close>





section \<open>The website resolver\<close>

definition knownDomains :: "(string \<times> string) list" where
  "knownDomains =
     [(''monday.com'', ''https://monday.com''), (''airtable'', ''https://airtable.com''),
      (''notion'', ''https://notion.so''), (''zapier'', ''https://zapier.com''),
      (''bubble'', ''https://bubble.io''), (''webflow'', ''https://webflow.com''),
      (''retool'', ''https://retool.com''), (''hubspot'', ''https://hubspot.com''),
      (''pipedrive'', ''https://pipedrive.com''), (''salesforce'', ''https://salesforce.com''),
      (''zoho crm'', ''https://zoho.com/crm''), (''zoho'', ''https://zoho.com/crm''),
      (''freshworks'', ''https://freshworks.com''), (''insightly'', ''https://insightly.com''),
      (''activecampaign'', ''https://activecampaign.com''), (''copper'', ''https://copper.com''),
      (''sugarcrm'', ''https://sugarcrm.com''), (''zendesk sell'', ''https://zendesk.com/sell''),
      (''asana'', ''https://asana.com''), (''clickup'', ''https://clickup.com''),
      (''shopify'', ''https://shopify.com''), (''woocommerce'', ''https://woocommerce.com'')]"

text \<open>
  What one \<open>axios.get\<close> of a candidate domain comes to: a response with its final HTTP
  status, or no response (a network error or the 5-second timeout).
\<close>

datatype probe_result = Responded nat | NoResponse

text \<open>
  One round of the probing loop.  \<open>validateStatus\<close> makes \<open>axios.get\<close> throw on a status
  of 400 or more, which the inner \<open>catch\<close> swallows like any other failure; a response
  that did not throw is accepted by the test \<open>response.status === 200\<close>.
\<close>

definition accepted :: "probe_result \<Rightarrow> bool" where
  "accepted p =
     (case p of
        NoResponse \<Rightarrow> False
      | Responded status \<Rightarrow> if status < 400 then status = 200 else False)"

fun probe_loop :: "(string \<Rightarrow> probe_result) \<Rightarrow> string list \<Rightarrow> string option" where
  "probe_loop probe [] = None"
| "probe_loop probe (domain # rest) =
     (if accepted (probe domain) then Some domain else probe_loop probe rest)"

text \<open>\<open>companyName.toLowerCase().replace(/[^a-z0-9]/g, '').replace(/\s+/g, '')\<close>.\<close>

definition domainName :: "string \<Rightarrow> string" where
  "domainName companyName =
     filter (\<lambda>c. \<not> is_space c)
       (filter (\<lambda>c. between CHR ''a'' CHR ''z'' c \<or> is_digit c) (toLowerCase companyName))"

definition possibleDomains :: "string \<Rightarrow> string list" where
  "possibleDomains companyName =
     [''https://'' @ domainName companyName @ ''.com'',
      ''https://www.'' @ domainName companyName @ ''.com'',
      ''https://'' @ domainName companyName @ ''.io'',
      ''https://www.'' @ domainName companyName @ ''.io'']"

definition known_match :: "string \<Rightarrow> (string \<times> string) option" where
  "known_match companyName =
     find (\<lambda>(key, domain). includes_str (toLowerCase companyName) key) knownDomains"

definition findCompanyWebsite :: "(string \<Rightarrow> probe_result) \<Rightarrow> string \<Rightarrow> string option" where
  "findCompanyWebsite probe companyName =
     (case known_match companyName of
        Some (key, domain) \<Rightarrow> Some domain
      | None \<Rightarrow> probe_loop probe (possibleDomains companyName))"

section \<open>Contacts\<close>

datatype source_t =
  website_team_page | contact_page | text_extraction | research_needed | research_failed

datatype priority_t = critical | high | medium | low

text \<open>
  \<open>extractedAt\<close> as \<open>new Date(contact.extractedAt)\<close> reads it: absent, present but not
  a date, or a time in milliseconds since the epoch.
\<close>

datatype date_t = NoDate | InvalidDate | DateMs int

record contact =
  name :: string
  title :: string
  email :: "string option"
  linkedin :: "string option"
  source :: source_t
  priority :: priority_t
  verified :: bool
  contact_note :: "string option"
  extractedAt :: date_t

definition calculateContactPriorityScore :: "string \<Rightarrow> int" where
  "calculateContactPriorityScore title' =
     (if title' = [] then 9
      else let titleLower = toLowerCase title' in
        if includes_str titleLower ''ceo'' then 1
        else if includes_str titleLower ''founder'' then 2
        else if includes_str titleLower ''cto'' then 3
        else if includes_str titleLower ''cpo'' then 4
        else if includes_str titleLower ''vp'' then 5
        else if includes_str titleLower ''director'' then 6
        else if includes_str titleLower ''head'' then 7
        else if includes_str titleLower ''manager'' then 8
        else 9)"

definition calculateContactPriority :: "string \<Rightarrow> priority_t" where
  "calculateContactPriority title' =
     (if title' = [] then low
      else let titleLower = toLowerCase title' in
        if includes_str titleLower ''ceo'' \<or> includes_str titleLower ''founder'' then critical
        else if includes_str titleLower ''cto'' \<or> includes_str titleLower ''cpo'' then high
        else if includes_str titleLower ''vp'' \<or> includes_str titleLower ''vice president''
          then high
        else if includes_str titleLower ''director'' \<or> includes_str titleLower ''head of''
          then medium
        else medium)"

text \<open>
  \<open>prioritizeContacts\<close>: \<open>Array.prototype.sort\<close> is stable, as is \<open>sort_key\<close>;
  \<open>slice(0, 5)\<close> keeps the first five.
\<close>

definition prioritizeContacts :: "contact list \<Rightarrow> contact list" where
  "prioritizeContacts contacts =
     take 5 (sort_key (\<lambda>c. calculateContactPriorityScore (title c)) contacts)"

subsection \<open>The quality score\<close>

record quality_breakdown =
  title_priority :: int
  email_verification :: int
  source_quality :: int
  linkedin_profile :: int
  recency :: int

record quality_score =
  score :: int
  maxScore :: "int option"
  percentage :: int
  breakdown :: "quality_breakdown option"

definition title_points :: "int \<Rightarrow> int" where
  "title_points titleScore =
     (if titleScore \<le> 2 then 40 else if titleScore \<le> 4 then 35
      else if titleScore \<le> 5 then 25 else if titleScore \<le> 6 then 15 else 5)"

definition email_points :: "contact \<Rightarrow> int" where
  "email_points c =
     (if truthy (email c) \<and> verified c then 25 else if truthy (email c) then 15 else 0)"

definition source_points :: "source_t \<Rightarrow> int" where
  "source_points s =
     (if s = website_team_page then 20 else if s = contact_page then 15
      else if s = text_extraction then 10 else 5)"

definition linkedin_points :: "contact \<Rightarrow> int" where
  "linkedin_points c = (if truthy (linkedin c) then 10 else 0)"

text \<open>
  The recency points: \<open>daysSinceExtracted\<close> is the age in milliseconds over the
  milliseconds of a day; an unreadable date makes every comparison false.  The age is an
  integer and the bounds 1, 7 and 30 are doubles, so comparing the rounded quotient with
  them gives what comparing the exact quotient gives.
\<close>

definition recency_points :: "int \<Rightarrow> date_t \<Rightarrow> int" where
  "recency_points now d =
     (case d of
        NoDate \<Rightarrow> 0
      | InvalidDate \<Rightarrow> 0
      | DateMs t \<Rightarrow>
          (let daysSinceExtracted = (of_int (now - t) :: rat) / (1000 * 60 * 60 * 24) in
           if daysSinceExtracted \<le> 1 then 5
           else if daysSinceExtracted \<le> 7 then 3
           else if daysSinceExtracted \<le> 30 then 1
           else 0))"

definition raw_quality :: "int \<Rightarrow> contact \<Rightarrow> int" where
  "raw_quality now c =
     title_points (calculateContactPriorityScore (title c)) + email_points c
     + source_points (source c) + linkedin_points c + recency_points now (extractedAt c)"

definition calculateContactQualityScore :: "int \<Rightarrow> contact \<Rightarrow> quality_score" where
  "calculateContactQualityScore now c =
     \<lparr>score = min (raw_quality now c) 100,
      maxScore = Some 100,
      percentage = js_round (double_times (double_div (min (raw_quality now c) 100) 100) 100),
      breakdown = Some
        \<lparr>title_priority = min 40 (title_points (calculateContactPriorityScore (title c))),
         email_verification = email_points c,
         source_quality = source_points (source c),
         linkedin_profile = linkedin_points c,
         recency = (if extractedAt c = NoDate then 0 else 5)\<rparr>\<rparr>"

subsection \<open>Email validation\<close>

text \<open>The pattern \<open>/^[^\s@]+@[^\s@]+\.[^\s@]+$/\<close>.\<close>

definition no_space_at :: "char \<Rightarrow> bool" where
  "no_space_at c = (\<not> is_space c \<and> c \<noteq> CHR ''@'')"

definition emailRegex :: regex where
  "emailRegex =
     Seq (Plus (Cls no_space_at))
       (Seq (Lit CHR ''@'')
         (Seq (Plus (Cls no_space_at)) (Seq (Lit CHR ''.'') (Plus (Cls no_space_at)))))"

definition validateEmailFormat :: "string option \<Rightarrow> bool" where
  "validateEmailFormat email' =
     (case email' of
        None \<Rightarrow> False
      | Some e \<Rightarrow> if e = [] then False else test_whole emailRegex e)"

datatype risk_t = risk_low | risk_medium | risk_high

record deliverability_t =
  risk :: risk_t
  reason :: string

text \<open>The pattern \<open>/https?:\/\/(www\.)?/\<close>.\<close>

definition urlPrefix :: regex where
  "urlPrefix =
     Seq (Word ''http'') (Seq (Opt (Lit CHR ''s'')) (Seq (Word ''://'') (Opt (Word ''www.''))))"

text \<open>\<open>url.replace(/https?:\/\/(www\.)?/, '').split('/')[0]\<close>.\<close>

definition domain_of :: "string \<Rightarrow> string" where
  "domain_of url =
     (case split CHR ''/'' (remove_first urlPrefix url) of [] \<Rightarrow> [] | d # _ \<Rightarrow> d)"

text \<open>\<open>email.split('@')[1]\<close>, \<open>undefined\<close> when there is no second part.\<close>

definition emailDomain :: "string \<Rightarrow> string option" where
  "emailDomain e = (case split CHR ''@'' e of _ # d # _ \<Rightarrow> Some d | _ \<Rightarrow> None)"

definition businessProviders :: "string list" where
  "businessProviders = [''gmail.com'', ''outlook.com'', ''hotmail.com'', ''yahoo.com'']"

definition estimateEmailDeliverability :: "string option \<Rightarrow> string option \<Rightarrow> deliverability_t"
where
  "estimateEmailDeliverability email' companyWebsite =
     (if \<not> truthy email' \<or> \<not> validateEmailFormat email'
      then \<lparr>risk = risk_high, reason = ''Invalid email format''\<rparr>
      else if truthy companyWebsite
              \<and> emailDomain (or_empty email') = Some (domain_of (or_empty companyWebsite))
      then \<lparr>risk = risk_low, reason = ''Email domain matches company website''\<rparr>
      else if emailDomain (or_empty email') \<in> Some ` set businessProviders
      then \<lparr>risk = risk_medium, reason = ''Personal email provider''\<rparr>
      else \<lparr>risk = risk_low, reason = ''Custom business domain''\<rparr>)"

record email_validation =
  isValid :: bool
  deliverability :: deliverability_t

record scored_contact = contact +
  qualityScore :: quality_score
  emailValidation :: email_validation
  recommendedForOutreach :: bool
  outreachRisk :: risk_t

text \<open>The object \<open>{...contact, qualityScore, emailValidation, ...}\<close> built for one contact.\<close>

definition score_one :: "string option \<Rightarrow> int \<Rightarrow> contact \<Rightarrow> scored_contact" where
  "score_one companyWebsite now c =
     (let qualityScore' = calculateContactQualityScore now c;
          emailValidation' = validateEmailFormat (email c);
          deliverability' = estimateEmailDeliverability (email c) companyWebsite
      in \<lparr>name = name c, title = title c, email = email c, linkedin = linkedin c,
          source = source c, priority = priority c, verified = verified c,
          contact_note = contact_note c, extractedAt = extractedAt c,
          qualityScore = qualityScore',
          emailValidation = \<lparr>isValid = emailValidation', deliverability = deliverability'\<rparr>,
          recommendedForOutreach = (percentage qualityScore' \<ge> 60 \<and> emailValidation'),
          outreachRisk = risk deliverability'\<rparr>)"

text \<open>
  \<open>scoreAndVerifyContacts\<close>: the comparator \<open>b.qualityScore.score - a.qualityScore.score\<close>
  orders by descending score; the sort is stable.
\<close>

definition scoreAndVerifyContacts ::
  "contact list \<Rightarrow> string option \<Rightarrow> int \<Rightarrow> scored_contact list" where
  "scoreAndVerifyContacts contacts companyWebsite now =
     sort_key (\<lambda>c. - score (qualityScore c)) (map (score_one companyWebsite now) contacts)"

section \<open>Extracting a contact from a page element\<close>

text \<open>
  A page element as \<open>extractContactFromElement\<close> observes it: the text of the first
  descendant matching a selector (empty when there is none), the element's own text, and
  the \<open>href\<close> of its first \<open>mailto:\<close> link and of its first LinkedIn link.
\<close>

record element =
  find_text :: "string \<Rightarrow> string"
  el_text :: string
  mailto_href :: "string option"
  linkedin_href :: "string option"

definition nameSelectors :: "string list" where
  \<open>nameSelectors =
     [''h1'', ''h2'', ''h3'', ''h4'', ''h5'', ''.name'', ''.full-name'', ''.person-name'',
      ''.member-name'', ''.title'', ''[class*="name"]'']\<close>

definition titleSelectors :: "string list" where
  \<open>titleSelectors =
     [''.title'', ''.position'', ''.role'', ''.job-title'', ''.designation'', ''.job'',
      ''[class*="title"]'', ''[class*="role"]'', ''[class*="position"]'']\<close>

text \<open>The first selector whose trimmed text passes the length test gives the value.\<close>

definition first_text :: "element \<Rightarrow> string list \<Rightarrow> (string \<Rightarrow> bool) \<Rightarrow> string" where
  "first_text el selectors ok =
     (case find (\<lambda>selector. ok (trim (find_text el selector))) selectors of
        None \<Rightarrow> []
      | Some selector \<Rightarrow> trim (find_text el selector))"

text \<open>The pattern \<open>/^[a-zA-Z\s\-'\.]+$/\<close>.\<close>

definition name_char :: "char \<Rightarrow> bool" where
  "name_char c = (is_letter c \<or> is_space c \<or> c = CHR ''-'' \<or> c = CHR 0x27 \<or> c = CHR ''.'')"

definition line_ok :: "string \<Rightarrow> bool" where
  "line_ok line =
     (let lowerLine = toLowerCase line in
      \<not> includes_str lowerLine ''press kit'' \<and> \<not> includes_str lowerLine ''careers''
      \<and> \<not> includes_str lowerLine ''about'' \<and> \<not> includes_str lowerLine ''contact''
      \<and> \<not> includes_str lowerLine ''menu'' \<and> \<not> includes_str lowerLine ''navigation''
      \<and> length line > 2 \<and> length line < 50 \<and> \<not> includes_str line ''@''
      \<and> test_whole (Plus (Cls name_char)) line)"

definition extract_name :: "element \<Rightarrow> string" where
  "extract_name el =
     (let name' = first_text el nameSelectors
                    (\<lambda>foundName. foundName \<noteq> [] \<and> length foundName > 2 \<and> length foundName < 50)
      in if name' \<noteq> [] then name'
         else let lines = filter (\<lambda>line. line \<noteq> [])
                            (map trim (split CHR 0x0A (trim (el_text el))));
                  filteredLines = filter line_ok lines
              in case filteredLines of [] \<Rightarrow> [] | line # _ \<Rightarrow> line)"

definition titleKeywords :: "string list" where
  "titleKeywords =
     [''ceo'', ''founder'', ''cto'', ''cpo'', ''vp'', ''director'', ''head of'', ''chief'',
      ''president'', ''manager'']"

definition upper_char :: "char \<Rightarrow> char" where
  "upper_char c = (if between CHR ''a'' CHR ''z'' c then char_of (code_unit c - 32) else c)"

text \<open>\<open>w.charAt(0).toUpperCase() + w.slice(1)\<close>, on a word of unaccented letters.\<close>

fun upper_first :: "string \<Rightarrow> string" where
  "upper_first [] = []"
| "upper_first (c # cs) = upper_char c # cs"

definition keyword_title :: "string \<Rightarrow> string" where
  "keyword_title keyword =
     (if keyword = ''ceo'' then ''CEO''
      else if keyword = ''founder'' then ''Founder''
      else if keyword = ''cto'' then ''CTO''
      else if keyword = ''cpo'' then ''CPO''
      else if keyword = ''vp'' then ''VP''
      else upper_first keyword)"

definition extract_title :: "element \<Rightarrow> string \<Rightarrow> string" where
  "extract_title el name' =
     (let title' = first_text el titleSelectors
                     (\<lambda>foundTitle. foundTitle \<noteq> [] \<and> length foundTitle > 2)
      in if title' = [] \<and> name' \<noteq> []
         then (case find (\<lambda>keyword. includes_str (toLowerCase (el_text el)) keyword)
                      titleKeywords of
                 None \<Rightarrow> title'
               | Some keyword \<Rightarrow> keyword_title keyword)
         else title')"

text \<open>The pattern \<open>/[a-zA-Z0-9._%+-]+@[a-zA-Z0-9.-]+\.[a-zA-Z]{2,}/\<close>.\<close>

definition emailPattern :: regex where
  "emailPattern =
     Seq (Plus (Cls (\<lambda>c. is_letter c \<or> is_digit c \<or> c \<in> set ''._%+-'')))
       (Seq (Lit CHR ''@'')
         (Seq (Plus (Cls (\<lambda>c. is_letter c \<or> is_digit c \<or> c \<in> set ''.-'')))
           (Seq (Lit CHR ''.'')
             (Seq (Cls is_letter) (Seq (Cls is_letter) (Star (Cls is_letter)))))))"

text \<open>\<open>value || null\<close> for a string that may be absent.\<close>

definition or_null :: "string option \<Rightarrow> string option" where
  "or_null v = (if truthy v then v else None)"

text \<open>
  \<open>name.toLowerCase().replace(/[^a-z\s]/g, '').split(' ').filter(part => part.length > 1)\<close>.
\<close>

definition cleanNameForEmail :: "string \<Rightarrow> string list" where
  "cleanNameForEmail name' =
     filter (\<lambda>part. length part > 1)
       (split CHR '' ''
          (filter (\<lambda>c. between CHR ''a'' CHR ''z'' c \<or> is_space c) (toLowerCase name')))"

text \<open>
  The address guessed from the name: \<open>possibleEmails[0]\<close>, built from the first and the
  last part of the name and the domain of the website.
\<close>

definition guessed_email :: "string \<Rightarrow> string option \<Rightarrow> string option" where
  "guessed_email name' websiteUrl =
     (let parts = cleanNameForEmail name' in
      if length parts \<ge> 2
      then (let domain = (if truthy websiteUrl then Some (domain_of (or_empty websiteUrl))
                          else None)
            in if truthy domain
               then Some (hd parts @ ''.'' @ last parts @ ''@'' @ or_empty domain)
               else None)
      else None)"

definition extract_email :: "element \<Rightarrow> string \<Rightarrow> string option \<Rightarrow> string option" where
  "extract_email el name' websiteUrl =
     (let email1 = or_null (map_option (remove_first (Word ''mailto:'')) (mailto_href el));
          email2 = (if \<not> truthy email1
                    then (case search emailPattern (el_text el) of
                            None \<Rightarrow> email1
                          | Some (before, matched, after) \<Rightarrow> Some matched)
                    else email1)
      in if \<not> truthy email2 \<and> name' \<noteq> []
         then (case guessed_email name' websiteUrl of None \<Rightarrow> email2 | Some e \<Rightarrow> Some e)
         else email2)"

text \<open>
  \<open>cleanName\<close>.  In \<open>/[^\w\s-'\.]/\<close> the class holds the word characters, the white
  space, the hyphen, the apostrophe and the dot; everything else becomes a space.
\<close>

function collapse_spaces :: "string \<Rightarrow> string" where
  "collapse_spaces [] = []"
| "collapse_spaces (c # cs) =
     (if is_space c then CHR '' '' # collapse_spaces (dropWhile is_space cs)
      else c # collapse_spaces cs)"
  by pat_completeness auto
termination
  by (relation "measure length") (auto simp: length_dropWhile_le less_Suc_eq_le)

definition cleanName :: "string \<Rightarrow> string" where
  "cleanName name' =
     join '' ''
       (map (\<lambda>word. (case word of [] \<Rightarrow> [] | c # cs \<Rightarrow> upper_char c # toLowerCase cs))
          (split CHR '' ''
             (trim (collapse_spaces
                (map (\<lambda>c. if is_word c \<or> is_space c \<or> c = CHR ''-'' \<or> c = CHR 0x27
                              \<or> c = CHR ''.'' then c else CHR '' '') name')))))"

definition extractContactFromElement ::
  "element \<Rightarrow> source_t \<Rightarrow> string option \<Rightarrow> int \<Rightarrow> contact option" where
  "extractContactFromElement el source' websiteUrl now =
     (let name' = extract_name el;
          title' = extract_title el name';
          email' = extract_email el name' websiteUrl;
          linkedin' = or_null (linkedin_href el)
      in if name' \<noteq> [] \<and> length name' > 2
         then Some \<lparr>name = cleanName name',
                    title = (if title' \<noteq> [] then title' else ''Team Member''),
                    email = email',
                    linkedin = linkedin',
                    source = source',
                    priority = calculateContactPriority title',
                    verified = truthy email',
                    contact_note = None,
                    extractedAt = DateMs now\<rparr>
         else None)"

section \<open>The contact-extraction stage\<close>

datatype error = Error string

text \<open>
  An entry of the list \<open>findKeyContacts\<close> returns: a contact with its four scoring
  fields, or the bare placeholder of the \<open>catch\<close> branch.
\<close>

datatype found_contact = Scored scored_contact | Unscored contact

definition placeholder_ceo :: scored_contact where
  "placeholder_ceo =
     \<lparr>name = ''CEO/Founder'', title = ''Chief Executive Officer'', email = None,
      linkedin = None, source = research_needed, priority = critical, verified = False,
      contact_note = Some ''Research CEO contact via LinkedIn or company directory'',
      extractedAt = NoDate,
      qualityScore = \<lparr>score = 40, maxScore = None, percentage = 40, breakdown = None\<rparr>,
      emailValidation =
        \<lparr>isValid = False,
         deliverability = \<lparr>risk = risk_high, reason = ''No email found''\<rparr>\<rparr>,
      recommendedForOutreach = False, outreachRisk = risk_high\<rparr>"

definition placeholder_cto :: scored_contact where
  "placeholder_cto =
     \<lparr>name = ''CTO/VP Engineering'', title = ''Chief Technology Officer'', email = None,
      linkedin = None, source = research_needed, priority = high, verified = False,
      contact_note = Some ''Research technical decision maker contact'',
      extractedAt = NoDate,
      qualityScore = \<lparr>score = 35, maxScore = None, percentage = 35, breakdown = None\<rparr>,
      emailValidation =
        \<lparr>isValid = False,
         deliverability = \<lparr>risk = risk_high, reason = ''No email found''\<rparr>\<rparr>,
      recommendedForOutreach = False, outreachRisk = risk_high\<rparr>"

definition placeholder_failed :: contact where
  "placeholder_failed =
     \<lparr>name = ''Contact Research Needed'', title = ''Decision Maker'', email = None,
      linkedin = None, source = research_failed, priority = high, verified = False,
      contact_note = Some ''Manual research required due to technical error'',
      extractedAt = NoDate\<rparr>"

text \<open>
  \<open>findKeyContacts\<close>.  The pages it fetches and scrapes are the outside world:
  \<open>gather url\<close> is what the gathering part of the \<open>try\<close> block (the walk over the team
  pages and the contact pages) leaves in \<open>contacts\<close> for a website, or the exception it
  ends with.  Without a website nothing is gathered.
\<close>

definition findKeyContacts ::
  "(string \<Rightarrow> error + contact list) \<Rightarrow> int \<Rightarrow> string \<Rightarrow> string option \<Rightarrow> found_contact list"
where
  "findKeyContacts gather now companyName websiteUrl =
     (case (if truthy websiteUrl then gather (or_empty websiteUrl) else Inr []) of
        Inl err \<Rightarrow> [Unscored placeholder_failed]
      | Inr contacts \<Rightarrow>
          (let prioritizedContacts = prioritizeContacts contacts;
               scoredContacts = scoreAndVerifyContacts prioritizedContacts websiteUrl now;
               highQualityContacts = filter (\<lambda>c. percentage (qualityScore c) \<ge> 60) scoredContacts
           in map Scored
                (if length highQualityContacts = 0 \<and> length scoredContacts = 0
                 then scoredContacts @ [placeholder_ceo, placeholder_cto]
                 else scoredContacts)))"

section \<open>Insights\<close>

record insights_t =
  strengths :: "string list"
  concerns :: "string list"
  recommendations :: "string list"
  email_hooks :: "string list"

definition generateCompanyInsights :: "website_analysis \<Rightarrow> scoring_result \<Rightarrow> insights_t" where
  "generateCompanyInsights wa scoring' =
     \<lparr>strengths =
        (if (case platform_type_points (scoring_result.breakdown scoring') of
               None \<Rightarrow> False | Some t \<Rightarrow> t \<ge> 20)
         then [''Strong platform type match for strategic guidance APIs''] else [])
        @ (if flag (business_indicators wa) has_customers
           then [''Has established customer base''] else [])
        @ (if flag (content_analysis wa) has_api
           then [''API-first platform - technical integration feasible''] else []),
      concerns =
        (if technical_fit (scoring_result.breakdown scoring') < 10
         then [''Limited technical integration capabilities''] else [])
        @ (if \<not> flag (business_indicators wa) has_funding
           then [''No clear funding/growth indicators''] else []),
      recommendations =
        (if total_score scoring' \<ge> 80
         then [''HIGH PRIORITY: Immediate outreach recommended'',
               ''Focus on strategic guidance and user success metrics'']
         else if total_score scoring' \<ge> 60
         then [''MEDIUM PRIORITY: Research more before outreach'',
               ''Investigate recent growth and funding status'']
         else [''LOW PRIORITY: Consider for nurture campaign'']),
      email_hooks =
        (if flag (business_indicators wa) has_customers
         then [''user engagement and retention challenges''] else [])
        @ (if map_option type_tag (platform_type wa) = Some NoCode
           then [''user project completion rates'',
                 ''strategic guidance for non-technical users'']
           else if map_option type_tag (platform_type wa) = Some Crm
           then [''deal closure rates and sales strategy'',
                 ''user adoption and feature utilization'']
           else [])\<rparr>"

section \<open>The research orchestrator\<close>

text \<open>
  The outside world of one research: what each domain probe comes to, what the analyzer
  returns for a website, what the contact pages yield, and the clock.
\<close>

record world =
  probe :: "string \<Rightarrow> probe_result"
  analyze :: "string \<Rightarrow> website_analysis"
  gather :: "string \<Rightarrow> error + contact list"
  clock :: int

definition analyzeCompanyWebsite :: "world \<Rightarrow> string option \<Rightarrow> website_analysis" where
  "analyzeCompanyWebsite w websiteUrl =
     (if \<not> truthy websiteUrl then empty_analysis else analyze w (or_empty websiteUrl))"

record research_result =
  company_name :: string
  company_website :: "string option"
  company_analysis :: website_analysis
  contacts :: "found_contact list"
  scoring :: scoring_result
  insights :: insights_t
  research_date :: int
  recommendation :: recommendation_t

text \<open>
  \<open>researchCompany\<close>; \<open>website || await findCompanyWebsite(companyName)\<close> keeps a
  non-empty website that was passed in.  The intelligence step returns constants and is
  left out of the record.
\<close>

definition researchCompany :: "world \<Rightarrow> string \<Rightarrow> string option \<Rightarrow> research_result" where
  "researchCompany w companyName website' =
     (let companyWebsite = (if truthy website' then website'
                            else findCompanyWebsite (probe w) companyName);
          websiteAnalysis = analyzeCompanyWebsite w companyWebsite;
          contacts' = findKeyContacts (gather w) (clock w) companyName companyWebsite;
          scoring' = scoreCompanyFit websiteAnalysis;
          insights' = generateCompanyInsights websiteAnalysis scoring'
      in \<lparr>company_name = companyName,
          company_website = companyWebsite,
          company_analysis = websiteAnalysis,
          contacts = contacts',
          scoring = scoring',
          insights = insights',
          research_date = clock w,
          recommendation = recommendation_of (total_score scoring')\<rparr>)"

section \<open>Batch research\<close>

type_synonym company = "string \<times> string option"

text \<open>
  An entry of the batch result: a research result with its input, or the error record
  \<open>{input, error, recommendation: 'RESEARCH_FAILED'}\<close>.
\<close>

datatype batch_entry = Researched research_result company | ResearchFailed company string

text \<open>The \<open>try\<close>/\<open>catch\<close> around one company's research.\<close>

definition attempt :: "(company \<Rightarrow> error + research_result) \<Rightarrow> company \<Rightarrow> batch_entry" where
  "attempt research c =
     (case research c of
        Inr result \<Rightarrow> Researched result c
      | Inl (Error message) \<Rightarrow> ResearchFailed c message)"

text \<open>\<open>Array.prototype.slice(start, end)\<close> on integers.\<close>

definition js_slice :: "'a list \<Rightarrow> int \<Rightarrow> int \<Rightarrow> 'a list" where
  "js_slice xs start end' =
     (let n = int (length xs);
          k = (if start < 0 then max (n + start) 0 else min start n);
          final = (if end' < 0 then max (n + end') 0 else min end' n)
      in take (nat (final - k)) (drop (nat k) xs))"

text \<open>
  The loop \<open>for (let i = 0; i < companies.length; i += maxConcurrent)\<close>; it has no
  result when it runs forever.  The pause between two batches does not change the result.
\<close>

partial_function (option) batch_loop ::
  "(company \<Rightarrow> error + research_result) \<Rightarrow> int \<Rightarrow> company list \<Rightarrow> int \<Rightarrow> batch_entry list
     \<Rightarrow> batch_entry list option"
where
  "batch_loop research maxConcurrent companies i results =
     (if i < int (length companies)
      then batch_loop research maxConcurrent companies (i + maxConcurrent)
             (results @ map (attempt research) (js_slice companies i (i + maxConcurrent)))
      else Some results)"

declare batch_loop.simps [code]

text \<open>\<open>a.scoring?.total_score || 0\<close>.\<close>

fun entry_score :: "batch_entry \<Rightarrow> int" where
  "entry_score (Researched result c) = total_score (scoring result)"
| "entry_score (ResearchFailed c message) = 0"

definition batchResearch ::
  "(company \<Rightarrow> error + research_result) \<Rightarrow> company list \<Rightarrow> int \<Rightarrow> batch_entry list option"
where
  "batchResearch research companies maxConcurrent =
     map_option (sort_key (\<lambda>e. - entry_score e))
       (batch_loop research maxConcurrent companies 0 [])"

section \<open>Example inputs\<close>

text \<open>Two contacts of a team page: a CEO without a LinkedIn link, a CTO with one.\<close>

definition example_ceo :: contact where
  "example_ceo =
     \<lparr>name = ''Ann Lee'', title = ''CEO'', email = Some ''ann.lee@acme.com'', linkedin = None,
      source = website_team_page, priority = critical, verified = True, contact_note = None,
      extractedAt = DateMs 0\<rparr>"

definition example_cto :: contact where
  "example_cto =
     \<lparr>name = ''Bob Ray'', title = ''CTO'', email = Some ''bob.ray@acme.com'',
      linkedin = Some ''https://linkedin.com/in/bobray'',
      source = website_team_page, priority = high, verified = True, contact_note = None,
      extractedAt = DateMs 0\<rparr>"

definition example_gather :: "string \<Rightarrow> error + contact list" where
  "example_gather url = Inr [example_ceo, example_cto]"

definition nothing_gathered :: "string \<Rightarrow> error + contact list" where
  "nothing_gathered url = Inr []"

text \<open>A site whose bare \<open>.com\<close> domain answers 204 and whose other candidates do not answer.\<close>

definition example_probe :: "string \<Rightarrow> probe_result" where
  "example_probe url = (if url = ''https://acme.com'' then Responded 204 else NoResponse)"

text \<open>A site whose \<open>www\<close> domain under \<open>.com\<close> is the first to answer 200.\<close>

definition example_probe_www :: "string \<Rightarrow> probe_result" where
  "example_probe_www url =
     (if url = ''https://acme.com'' then Responded 404
      else if url = ''https://www.acme.com'' then Responded 200
      else if url = ''https://acme.io'' then Responded 200
      else NoResponse)"

text \<open>
  A team-page card with a heading and a role, without any address in it:
  \<open><div class="team-member"><h3>Jane Doe</h3><p>Head of Product</p></div>\<close>.
\<close>

definition example_element :: element where
  "example_element =
     \<lparr>find_text = (\<lambda>selector. if selector = ''h3'' then ''Jane Doe'' else []),
      el_text = ''Jane DoeHead of Product'',
      mailto_href = None,
      linkedin_href = None\<rparr>"

text \<open>
  A world in which no probe answers and nothing is gathered; the analyzer finds the page
  title on the site of the alias table's \<open>bubble\<close> entry and nothing elsewhere.  In
  the example batch the research of the company \<open>Alpha\<close> throws.
\<close>

definition bubble_analysis :: website_analysis where
  "bubble_analysis =
     \<lparr>website_analysis.title = Some ''Bubble'', description = Some [], website = None,
      platform_type = Some \<lparr>type_tag = Unknown, confidence = 0, keywords_found = 0\<rparr>,
      business_indicators =
        Some \<lparr>has_customers = False, customer_count = None, has_funding = False,
              has_team_page = False, has_careers = False, has_press = False,
              has_case_studies = False, growth_indicators = []\<rparr>,
      tech_stack = Some ([], [], [], []),
      pricing_info = Some \<lparr>pricing_info_t.has_pricing = False, pricing_model = None, price_indicators = []\<rparr>,
      content_analysis =
        Some \<lparr>has_api = False, has_developers = False, has_enterprise = False,
              has_pricing = False\<rparr>\<rparr>"

text \<open>
  The analysis of a CRM site with a careers link, a press link, a case study, an API and
  developer documentation, and no pricing links: 25 + 15 + 20 + 9 = 69 points.
\<close>

definition crm_analysis :: website_analysis where
  "crm_analysis =
     \<lparr>website_analysis.title = Some ''Acme CRM'', description = Some [], website = None,
      platform_type = Some \<lparr>type_tag = Crm, confidence = 3, keywords_found = 3\<rparr>,
      business_indicators =
        Some \<lparr>has_customers = False, customer_count = None, has_funding = False,
              has_team_page = False, has_careers = True, has_press = True,
              has_case_studies = True,
              growth_indicators = [''hiring'', ''press'', ''case_studies'']\<rparr>,
      tech_stack = Some ([], [], [], []),
      pricing_info = Some \<lparr>pricing_info_t.has_pricing = False, pricing_model = None, price_indicators = []\<rparr>,
      content_analysis =
        Some \<lparr>has_api = True, has_developers = True, has_enterprise = False,
              has_pricing = False\<rparr>\<rparr>"

definition example_world :: world where
  "example_world =
     \<lparr>probe = (\<lambda>url. NoResponse),
      analyze = (\<lambda>url. if url = ''https://bubble.io'' then bubble_analysis
                         else empty_analysis),
      gather = nothing_gathered, clock = 0\<rparr>"

definition example_research :: "company \<Rightarrow> error + research_result" where
  "example_research c =
     (if fst c = ''Alpha'' then Inl (Error ''boom'')
      else Inr (researchCompany example_world (fst c) (snd c)))"

definition example_batch :: "company list" where
  "example_batch = [(''Alpha'', None), (''Beta'', None), (''Bubble'', None)]"

definition is_failed :: "batch_entry \<Rightarrow> bool" where
  "is_failed e = (case e of ResearchFailed c message \<Rightarrow> True | Researched result c \<Rightarrow> False)"

text \<open>The title of a returned entry, for its priority rank.\<close>

fun found_title :: "found_contact \<Rightarrow> string" where
  "found_title (Scored c) = title c"
| "found_title (Unscored c) = title c"

definition found_rank :: "found_contact \<Rightarrow> int" where
  "found_rank e = calculateContactPriorityScore (found_title e)"

section \<open>Properties of the fit scorer\<close>

lemma recognition_bounds:
  assumes "\<And>p b. (p, b) \<in> set tbl \<Longrightarrow> 0 \<le> b \<and> b \<le> 20"
  shows "0 \<le> recognition tbl n w \<and> recognition tbl n w \<le> 20"
  using assms by (induction tbl n w rule: recognition.induct) auto

lemma recognitionBoost_bounds: "0 \<le> recognitionBoost wa \<and> recognitionBoost wa \<le> 20"
  unfolding recognitionBoost_def
  by (rule recognition_bounds) (auto simp: majorPlatforms_def)

lemma platformScore_bounds: "5 \<le> platformScore t \<and> platformScore t \<le> 30"
  by (cases t) simp_all

lemma businessScore_nonneg: "0 \<le> businessScore wa"
  by (simp add: businessScore_def)

lemma techScore_nonneg: "0 \<le> techScore wa"
  by (simp add: techScore_def)

lemma pricingScore_nonneg: "0 \<le> pricingScore wa"
  by (simp add: pricingScore_def)

lemma growthScore_bounds: "0 \<le> growthScore wa \<and> growthScore wa \<le> 10"
  by (simp add: growthScore_def split: option.split)

lemma typeScore_bounds: "0 \<le> contribution (typeScore wa) \<and> contribution (typeScore wa) \<le> 30"
proof (cases "platform_type wa")
  case None
  then show ?thesis by (simp add: typeScore_def)
next
  case (Some p)
  with platformScore_bounds [of "type_tag p"] show ?thesis
    by (simp add: typeScore_def)
qed

lemma score_sum_bounds: "0 \<le> score_sum wa \<and> score_sum wa \<le> 120"
proof -
  note r = recognitionBoost_bounds [of wa]
  note t = typeScore_bounds [of wa]
  note b = businessScore_nonneg [of wa]
  note c = techScore_nonneg [of wa]
  note p = pricingScore_nonneg [of wa]
  note g = growthScore_bounds [of wa]
  from r t b c p g show ?thesis
    unfolding score_sum_def by (simp add: min_def)
qed

text \<open>
  The percentage.  \<open>Math.round((score / 120) * 100)\<close> rounds the double product, not
  the exact value \<open>score * 5 / 6\<close>.  The two agree for every total from 0 to 120 but
  one: at 69 the quotient \<open>69 / 120\<close> is rounded down, the product is the double just
  below 57.5, and the percentage is 57.
\<close>

lemma exponent_of_numeral:
  "exponent_of (numeral n) a b =
     (if a < b then exponent_of (pred_numeral n) (2 * a) b - 1
      else if 2 * b \<le> a then exponent_of (pred_numeral n) a (2 * b) + 1
      else 0)"
  by (simp add: numeral_eq_Suc)

lemma holds_from_numeral:
  "holds_from P a (numeral n) = (P a \<and> holds_from P (a + 1) (pred_numeral n))"
  by (simp add: numeral_eq_Suc)

lemma holds_fromD: "holds_from P a n \<Longrightarrow> a \<le> s \<Longrightarrow> s < a + int n \<Longrightarrow> P s"
proof (induction n arbitrary: a)
  case 0
  then show ?case by simp
next
  case (Suc n)
  show ?case
  proof (cases "s = a")
    case True
    with Suc.prems(1) show ?thesis by simp
  next
    case False
    with Suc.prems have "holds_from P (a + 1) n" "a + 1 \<le> s" "s < (a + 1) + int n"
      by simp_all
    then show ?thesis by (rule Suc.IH)
  qed
qed

lemma percent_table:
  "holds_from (\<lambda>s. js_round (double_times (double_div s 120) 100)
                 = (if s = 69 then 57 else (5 * s + 3) div 6)) 0 41"
  "holds_from (\<lambda>s. js_round (double_times (double_div s 120) 100)
                 = (if s = 69 then 57 else (5 * s + 3) div 6)) 41 40"
  "holds_from (\<lambda>s. js_round (double_times (double_div s 120) 100)
                 = (if s = 69 then 57 else (5 * s + 3) div 6)) 81 40"
  by (simp_all add: holds_from_numeral double_div_def double_times_def round_frac_def
      round_even_div_def js_round_def Let_def exponent_of_numeral)

lemma percent_closed:
  assumes "0 \<le> s" "s \<le> 120"
  shows "js_round (double_times (double_div s 120) 100)
       = (if s = 69 then 57 else (5 * s + 3) div 6)"
proof -
  consider "s < 41" | "41 \<le> s" "s < 81" | "81 \<le> s" by linarith
  then show ?thesis
  proof cases
    case 1
    with assms show ?thesis by (intro holds_fromD [OF percent_table(1)]) simp_all
  next
    case 2
    then show ?thesis by (intro holds_fromD [OF percent_table(2)]) simp_all
  next
    case 3
    with assms show ?thesis by (intro holds_fromD [OF percent_table(3)]) simp_all
  qed
qed

lemma round_half_up_percent: "round_half_up (of_int s / 120 * 100) = (5 * s + 3) div 6"
proof -
  have "(of_int s :: rat) / 120 * 100 + 1 / 2 = of_int (5 * s + 3) / of_int 6"
    by (simp add: field_simps)
  then show ?thesis
    unfolding round_half_up_def by (simp only: floor_divide_of_int_eq)
qed

text \<open>
  C2, as the code has it.  For every analyzer output \<open>wa\<close>, the empty object included,
  the total score of \<open>scoreCompanyFit\<close> lies between 0 and 120; the six factors stay
  within their caps (recognition 20, platform type 30, business indicators 25, technical
  fit 20, pricing 15, growth 10); the total is the sum of the six contributions, the
  platform-type factor contributing nothing when the analysis has no platform type.  The
  percentage is \<open>Math.round\<close> of the double product \<open>(total / 120) * 100\<close>: the exact
  value of \<open>total / 120 * 100\<close> rounded half up, except at the total 69, where it is 57.
\<close>

theorem scoreCompanyFit_total_and_caps:
  fixes wa :: website_analysis
  defines "r \<equiv> scoreCompanyFit wa"
  shows "0 \<le> total_score r \<and> total_score r \<le> 120
    \<and> platform_recognition (scoring_result.breakdown r) \<le> 20
    \<and> contribution (platform_type_points (scoring_result.breakdown r)) \<le> 30
    \<and> business_points (scoring_result.breakdown r) \<le> 25
    \<and> technical_fit (scoring_result.breakdown r) \<le> 20
    \<and> pricing_points (scoring_result.breakdown r) \<le> 15
    \<and> growth_points (scoring_result.breakdown r) \<le> 10
    \<and> total_score r =
        platform_recognition (scoring_result.breakdown r)
        + contribution (platform_type_points (scoring_result.breakdown r))
        + business_points (scoring_result.breakdown r) + technical_fit (scoring_result.breakdown r)
        + pricing_points (scoring_result.breakdown r) + growth_points (scoring_result.breakdown r)
    \<and> scoring_result.percentage r = js_round (double_times (double_div (total_score r) 120) 100)
    \<and> scoring_result.percentage r
        = (if total_score r = 69 then 57
           else round_half_up (of_int (total_score r) / 120 * 100))
    \<and> max_possible r = 120"
proof -
  note s = score_sum_bounds [of wa]
  note rb = recognitionBoost_bounds [of wa]
  note t = typeScore_bounds [of wa]
  note g = growthScore_bounds [of wa]
  have tot: "total_score r = score_sum wa"
    by (simp add: r_def scoreCompanyFit_def)
  have sum: "total_score r =
        platform_recognition (scoring_result.breakdown r)
        + contribution (platform_type_points (scoring_result.breakdown r))
        + business_points (scoring_result.breakdown r) + technical_fit (scoring_result.breakdown r)
        + pricing_points (scoring_result.breakdown r) + growth_points (scoring_result.breakdown r)"
    by (simp add: r_def scoreCompanyFit_def score_sum_def)
  have caps: "platform_recognition (scoring_result.breakdown r) \<le> 20"
    "contribution (platform_type_points (scoring_result.breakdown r)) \<le> 30"
    "business_points (scoring_result.breakdown r) \<le> 25"
    "technical_fit (scoring_result.breakdown r) \<le> 20"
    "pricing_points (scoring_result.breakdown r) \<le> 15"
    "growth_points (scoring_result.breakdown r) \<le> 10"
    using rb t g by (simp_all add: r_def scoreCompanyFit_def)
  have pct: "scoring_result.percentage r
      = js_round (double_times (double_div (total_score r) 120) 100)"
    and mp: "max_possible r = 120"
    by (simp_all add: r_def scoreCompanyFit_def)
  from s tot have "0 \<le> total_score r" "total_score r \<le> 120" by simp_all
  then have closed: "scoring_result.percentage r
        = (if total_score r = 69 then 57
           else round_half_up (of_int (total_score r) / 120 * 100))"
    unfolding pct round_half_up_percent by (rule percent_closed)
  from s tot sum caps pct closed mp show ?thesis by simp
qed

lemma crm_analysis_total: "total_score (scoreCompanyFit crm_analysis) = 69"
  by code_simp

text \<open>
  The claim as stated fails: the analysis of the CRM site totals 69, the exact value
  \<open>69 / 120 * 100 = 57.5\<close> rounds to 58, and the percentage returned is 57.
\<close>

theorem scoreCompanyFit_percentage_counterexample:
  "total_score (scoreCompanyFit crm_analysis) = 69
   \<and> round_half_up (of_int 69 / 120 * 100) = 58
   \<and> scoring_result.percentage (scoreCompanyFit crm_analysis) = 57"
proof -
  have "round_half_up (of_int 69 / 120 * 100) = 58"
    unfolding round_half_up_percent by simp
  moreover have "scoring_result.percentage (scoreCompanyFit crm_analysis)
      = js_round (double_times (double_div (total_score (scoreCompanyFit crm_analysis)) 120) 100)"
    by (simp add: scoreCompanyFit_def)
  then have "scoring_result.percentage (scoreCompanyFit crm_analysis) = 57"
    unfolding crm_analysis_total by (simp add: percent_closed)
  ultimately show ?thesis using crm_analysis_total by simp
qed

section \<open>The recommendation tier\<close>

text \<open>
  C1.  In every result of \<open>researchCompany\<close> the recommendation is a function of the
  total score alone: \<open>HOT_PROSPECT\<close> exactly from 80 up, \<open>WARM_PROSPECT\<close> exactly from
  60 to below 80, \<open>COLD_PROSPECT\<close> exactly from 40 to below 60, \<open>NOT_QUALIFIED\<close> exactly
  below 40; a score on a boundary gets the higher tier.
\<close>

theorem researchCompany_recommendation_tier:
  fixes w :: world and companyName :: string and website' :: "string option"
  defines "r \<equiv> researchCompany w companyName website'"
  defines "s \<equiv> total_score (scoring r)"
  shows "recommendation r = recommendation_of s
    \<and> (recommendation r = HOT_PROSPECT) = (s \<ge> 80)
    \<and> (recommendation r = WARM_PROSPECT) = (60 \<le> s \<and> s < 80)
    \<and> (recommendation r = COLD_PROSPECT) = (40 \<le> s \<and> s < 60)
    \<and> (recommendation r = NOT_QUALIFIED) = (s < 40)
    \<and> recommendation_of 80 = HOT_PROSPECT
    \<and> recommendation_of 60 = WARM_PROSPECT
    \<and> recommendation_of 40 = COLD_PROSPECT"
proof -
  have rec: "recommendation r = recommendation_of s"
    by (simp add: r_def s_def researchCompany_def Let_def)
  show ?thesis
    unfolding rec by (auto simp: recommendation_of_def)
qed

section \<open>Properties of the contact scorer\<close>

lemma score_one_fields:
  "recommendedForOutreach (score_one site now c) =
     (percentage (qualityScore (score_one site now c)) \<ge> 60 \<and> validateEmailFormat (email c))"
  "email (score_one site now c) = email c"
  "title (score_one site now c) = title c"
  "qualityScore (score_one site now c) = calculateContactQualityScore now c"
  "contact.truncate (score_one site now c) = c"
  by (simp_all add: score_one_def Let_def contact.truncate_def)

lemma set_scoreAndVerifyContacts:
  "set (scoreAndVerifyContacts cs site now) = score_one site now ` set cs"
  by (simp add: scoreAndVerifyContacts_def)

text \<open>
  C3.  For every contact in the output of \<open>scoreAndVerifyContacts\<close>,
  \<open>recommendedForOutreach\<close> is true exactly when the quality percentage is at least 60
  and the email passes the format validation; it is never true when the email is null.
\<close>

theorem recommendedForOutreach_iff:
  "\<forall>c \<in> set (scoreAndVerifyContacts cs companyWebsite now).
     recommendedForOutreach c
       = (percentage (qualityScore c) \<ge> 60 \<and> validateEmailFormat (email c))
     \<and> (email c = None \<longrightarrow> \<not> recommendedForOutreach c)"
proof
  fix c assume "c \<in> set (scoreAndVerifyContacts cs companyWebsite now)"
  then obtain c0 where c: "c = score_one companyWebsite now c0"
    by (auto simp: set_scoreAndVerifyContacts)
  have iff: "recommendedForOutreach c
       = (percentage (qualityScore c) \<ge> 60 \<and> validateEmailFormat (email c))"
    unfolding c by (simp add: score_one_fields)
  moreover have "validateEmailFormat None = False"
    by (simp add: validateEmailFormat_def)
  ultimately show "recommendedForOutreach c
       = (percentage (qualityScore c) \<ge> 60 \<and> validateEmailFormat (email c))
     \<and> (email c = None \<longrightarrow> \<not> recommendedForOutreach c)"
    by auto
qed

theorem recommendedForOutreach_iff_witness:
  "score_one None 0 placeholder_failed
     \<in> set (scoreAndVerifyContacts [example_ceo, placeholder_failed] None 0)
   \<and> email (score_one None 0 placeholder_failed) = None
   \<and> \<not> recommendedForOutreach (score_one None 0 placeholder_failed)
   \<and> score_one None 0 example_ceo
     \<in> set (scoreAndVerifyContacts [example_ceo, placeholder_failed] None 0)
   \<and> percentage (qualityScore (score_one None 0 example_ceo)) = 90
   \<and> validateEmailFormat (email (score_one None 0 example_ceo))
   \<and> recommendedForOutreach (score_one None 0 example_ceo)"
proof -
  let ?out = "scoreAndVerifyContacts [example_ceo, placeholder_failed] None 0"
  have m1: "score_one None 0 placeholder_failed \<in> set ?out"
    and m2: "score_one None 0 example_ceo \<in> set ?out"
    by (simp_all add: set_scoreAndVerifyContacts)
  have e: "email (score_one None 0 placeholder_failed) = None"
    by (simp add: score_one_fields placeholder_failed_def)
  have p: "percentage (qualityScore (score_one None 0 example_ceo)) = 90"
    by code_simp
  have v: "validateEmailFormat (email (score_one None 0 example_ceo))"
    by code_simp
  from bspec [OF recommendedForOutreach_iff m1] e
  have n: "\<not> recommendedForOutreach (score_one None 0 placeholder_failed)"
    by blast
  from bspec [OF recommendedForOutreach_iff m2] p v
  have r: "recommendedForOutreach (score_one None 0 example_ceo)"
    by simp
  from m1 m2 e p v n r show ?thesis by blast
qed

text \<open>
  C10.  \<open>scoreAndVerifyContacts\<close> returns a list of the length of its input; stripped of
  the four added fields (\<open>qualityScore\<close>, \<open>emailValidation\<close>, \<open>recommendedForOutreach\<close>,
  \<open>outreachRisk\<close>), its elements are the input contacts, each as often as in the input.
\<close>

theorem scoreAndVerifyContacts_frame:
  "length (scoreAndVerifyContacts cs companyWebsite now) = length cs
   \<and> mset (map contact.truncate (scoreAndVerifyContacts cs companyWebsite now)) = mset cs"
proof -
  have "mset (map contact.truncate (scoreAndVerifyContacts cs companyWebsite now))
      = image_mset contact.truncate (mset (map (score_one companyWebsite now) cs))"
    by (simp add: scoreAndVerifyContacts_def)
  also have "\<dots> = mset cs"
    by (simp add: image_mset.compositionality comp_def score_one_fields)
  finally show ?thesis
    by (simp add: scoreAndVerifyContacts_def)
qed

section \<open>Properties of the contact-extraction stage\<close>

lemma prioritizeContacts_length: "length (prioritizeContacts cs) \<le> 5"
  by (simp add: prioritizeContacts_def)

lemma prioritizeContacts_sorted:
  "sorted (map (\<lambda>c. calculateContactPriorityScore (title c)) (prioritizeContacts cs))"
  unfolding prioritizeContacts_def take_map [symmetric]
  by (rule sorted_wrt_take) (rule sorted_sort_key)

lemma scoreAndVerifyContacts_sorted:
  "sorted (map (\<lambda>c. - score (qualityScore c)) (scoreAndVerifyContacts cs site now))"
  unfolding scoreAndVerifyContacts_def by (rule sorted_sort_key)

lemma scoreAndVerifyContacts_length:
  "length (scoreAndVerifyContacts cs site now) = length cs"
  by (simp add: scoreAndVerifyContacts_def)

lemma scoreAndVerifyContacts_Nil_iff:
  "scoreAndVerifyContacts (prioritizeContacts cs) site now = [] \<longleftrightarrow> cs = []"
proof -
  have "scoreAndVerifyContacts (prioritizeContacts cs) site now = []
      \<longleftrightarrow> length (prioritizeContacts cs) = 0"
    using scoreAndVerifyContacts_length [of "prioritizeContacts cs" site now] by auto
  also have "\<dots> \<longleftrightarrow> cs = []"
    by (cases cs) (simp_all add: prioritizeContacts_def)
  finally show ?thesis .
qed

lemma findKeyContacts_length: "length (findKeyContacts gather' now n site) \<le> 5"
proof (cases "if truthy site then gather' (or_empty site) else Inr []")
  case (Inl e)
  then show ?thesis by (simp add: findKeyContacts_def)
next
  case (Inr cs)
  have "length (scoreAndVerifyContacts (prioritizeContacts cs) site now) \<le> 5"
    by (simp add: scoreAndVerifyContacts_length prioritizeContacts_length)
  with Inr show ?thesis
    by (simp add: findKeyContacts_def Let_def)
qed

text \<open>
  The rank is found by substring tests in a fixed order, the first hit deciding.  A title
  that contains \<open>director\<close> contains \<open>cto\<close>, which is tested earlier; for the other
  titles the tests come to the table ceo 1, founder 2, cto 3, cpo 4, vp 5, head 7,
  manager 8, anything else 9.
\<close>

lemma priority_rank_table:
  "map calculateContactPriorityScore
     [''ceo'', ''founder'', ''cto'', ''cpo'', ''vp'', ''head'', ''manager'', ''engineer'', []]
     = [1, 2, 3, 4, 5, 7, 8, 9, 9]"
  by code_simp

lemma director_rank: "calculateContactPriorityScore ''Director'' = 3"
  by code_simp

lemma rank_without_director:
  assumes "\<not> includes_str (toLowerCase t) ''director''"
  shows "calculateContactPriorityScore t =
     (if includes_str (toLowerCase t) ''ceo'' then 1
      else if includes_str (toLowerCase t) ''founder'' then 2
      else if includes_str (toLowerCase t) ''cto'' then 3
      else if includes_str (toLowerCase t) ''cpo'' then 4
      else if includes_str (toLowerCase t) ''vp'' then 5
      else if includes_str (toLowerCase t) ''head'' then 7
      else if includes_str (toLowerCase t) ''manager'' then 8
      else 9)"
proof (cases "t = []")
  case True
  then show ?thesis
    by (simp add: calculateContactPriorityScore_def toLowerCase_def)
next
  case False
  with assms show ?thesis
    by (simp add: calculateContactPriorityScore_def Let_def)
qed

lemma prioritizeContacts_sorted_filter:
  "sorted (map (\<lambda>c. calculateContactPriorityScore (title c))
     (filter P (prioritizeContacts cs)))"
proof -
  have "sorted_wrt (\<lambda>a b. calculateContactPriorityScore (title a)
            \<le> calculateContactPriorityScore (title b)) (prioritizeContacts cs)"
    using prioritizeContacts_sorted [of cs] by (simp add: sorted_map)
  then have "sorted_wrt (\<lambda>a b. calculateContactPriorityScore (title a)
            \<le> calculateContactPriorityScore (title b)) (filter P (prioritizeContacts cs))"
    by (rule sorted_wrt_filter)
  then show ?thesis by (simp add: sorted_map)
qed

text \<open>The sort by quality score is stable: contacts of equal score keep their order.\<close>

lemma scoreAndVerifyContacts_stable:
  "map contact.truncate
     (filter (\<lambda>c. score (qualityScore c) = k) (scoreAndVerifyContacts xs site now))
   = filter (\<lambda>c. score (calculateContactQualityScore now c) = k) xs"
proof -
  have "filter (\<lambda>c. - score (qualityScore c) = - k) (scoreAndVerifyContacts xs site now)
      = filter (\<lambda>c. - score (qualityScore c) = - k) (map (score_one site now) xs)"
    unfolding scoreAndVerifyContacts_def by (rule sort_key_stable)
  then have "filter (\<lambda>c. score (qualityScore c) = k) (scoreAndVerifyContacts xs site now)
      = map (score_one site now)
          (filter (\<lambda>c. score (calculateContactQualityScore now c) = k) xs)"
    by (simp add: filter_map comp_def score_one_fields)
  then show ?thesis
    by (simp add: comp_def score_one_fields)
qed

text \<open>
  C4, as the code has it.  Every list returned by \<open>findKeyContacts\<close> has at most 5
  entries.  The list \<open>prioritizeContacts\<close> hands on has at most 5 entries, and its
  contacts whose title does not contain \<open>director\<close> stand in ascending order of the
  title-priority rank; for such a title the rank is 1 if it contains \<open>ceo\<close>, else 2 for
  \<open>founder\<close>, 3 for \<open>cto\<close>, 4 for \<open>cpo\<close>, 5 for \<open>vp\<close>, 7 for \<open>head\<close>, 8 for
  \<open>manager\<close>, and 9 otherwise (so there a ceo comes before a founder, who comes before
  a cto, and so on).  \<open>scoreAndVerifyContacts\<close> then sorts its input by descending
  quality score, contacts of equal score keeping their order, and when contacts were
  gathered the returned list is the prioritized list sorted in this way: it is ordered by
  quality score, not by rank.
\<close>

theorem findKeyContacts_order:
  "length (findKeyContacts gather' now companyName site) \<le> 5
   \<and> length (prioritizeContacts cs) \<le> 5
   \<and> sorted (map (\<lambda>c. calculateContactPriorityScore (title c))
        (filter (\<lambda>c. \<not> includes_str (toLowerCase (title c)) ''director'')
           (prioritizeContacts cs)))
   \<and> map calculateContactPriorityScore
        [''ceo'', ''founder'', ''cto'', ''cpo'', ''vp'', ''head'', ''manager'', ''engineer'', []]
        = [1, 2, 3, 4, 5, 7, 8, 9, 9]
   \<and> (\<not> includes_str (toLowerCase t) ''director'' \<longrightarrow>
        calculateContactPriorityScore t =
          (if includes_str (toLowerCase t) ''ceo'' then 1
           else if includes_str (toLowerCase t) ''founder'' then 2
           else if includes_str (toLowerCase t) ''cto'' then 3
           else if includes_str (toLowerCase t) ''cpo'' then 4
           else if includes_str (toLowerCase t) ''vp'' then 5
           else if includes_str (toLowerCase t) ''head'' then 7
           else if includes_str (toLowerCase t) ''manager'' then 8
           else 9))
   \<and> sorted (map (\<lambda>c. - score (qualityScore c)) (scoreAndVerifyContacts xs site now))
   \<and> (\<forall>k. map contact.truncate
              (filter (\<lambda>c. score (qualityScore c) = k) (scoreAndVerifyContacts xs site now))
            = filter (\<lambda>c. score (calculateContactQualityScore now c) = k) xs)
   \<and> (url \<noteq> [] \<longrightarrow> gather' url = Inr cs \<longrightarrow> cs \<noteq> [] \<longrightarrow>
        findKeyContacts gather' now companyName (Some url)
          = map Scored (scoreAndVerifyContacts (prioritizeContacts cs) (Some url) now))"
proof -
  have last: "findKeyContacts gather' now companyName (Some url)
          = map Scored (scoreAndVerifyContacts (prioritizeContacts cs) (Some url) now)"
    if "url \<noteq> []" "gather' url = Inr cs" "cs \<noteq> []"
  proof -
    from that(3) have "scoreAndVerifyContacts (prioritizeContacts cs) (Some url) now \<noteq> []"
      by (simp add: scoreAndVerifyContacts_Nil_iff)
    with that(1,2) show ?thesis
      by (simp add: findKeyContacts_def Let_def)
  qed
  note a = findKeyContacts_length [of gather' now companyName site]
  note b = prioritizeContacts_length [of cs]
  note c = prioritizeContacts_sorted_filter
    [of "\<lambda>c. \<not> includes_str (toLowerCase (title c)) ''director''" cs]
  note d = priority_rank_table
  note e = rank_without_director [of t]
  note f = scoreAndVerifyContacts_sorted [of xs site now]
  note g = scoreAndVerifyContacts_stable [of _ xs site now]
  from a b c d e f g last show ?thesis by blast
qed

theorem findKeyContacts_order_witness:
  "\<not> includes_str (toLowerCase ''Founder & CEO'') ''director''
   \<and> calculateContactPriorityScore ''Founder & CEO'' = 1
   \<and> ''https://acme.com'' \<noteq> []
   \<and> example_gather ''https://acme.com'' = Inr [example_ceo, example_cto]
   \<and> [example_ceo, example_cto] \<noteq> []
   \<and> findKeyContacts example_gather 0 ''Acme'' (Some ''https://acme.com'')
       = map Scored (scoreAndVerifyContacts (prioritizeContacts [example_ceo, example_cto])
           (Some ''https://acme.com'') 0)
   \<and> map (\<lambda>c. calculateContactPriorityScore (title c))
        (prioritizeContacts [example_ceo, example_cto]) = [1, 3]
   \<and> map (\<lambda>c. score (qualityScore c))
        (scoreAndVerifyContacts (prioritizeContacts [example_ceo, example_cto])
           (Some ''https://acme.com'') 0) = [95, 90]"
proof -
  have n: "\<not> includes_str (toLowerCase ''Founder & CEO'') ''director''"
    by code_simp
  have c: "includes_str (toLowerCase ''Founder & CEO'') ''ceo''"
    by code_simp
  have g: "example_gather ''https://acme.com'' = Inr [example_ceo, example_cto]"
    by (simp add: example_gather_def)
  have r: "map (\<lambda>c. calculateContactPriorityScore (title c))
        (prioritizeContacts [example_ceo, example_cto]) = [1, 3]"
    by code_simp
  have q: "map (\<lambda>c. score (qualityScore c))
        (scoreAndVerifyContacts (prioritizeContacts [example_ceo, example_cto])
           (Some ''https://acme.com'') 0) = [95, 90]"
    by code_simp
  note inst = findKeyContacts_order [where gather' = example_gather and now = 0
      and companyName = "''Acme''" and site = "Some ''https://acme.com''"
      and cs = "[example_ceo, example_cto]" and url = "''https://acme.com''"
      and t = "''Founder & CEO''" and xs = "[]"]
  from inst n c have k: "calculateContactPriorityScore ''Founder & CEO'' = 1"
    by simp
  from inst g have l: "findKeyContacts example_gather 0 ''Acme'' (Some ''https://acme.com'')
       = map Scored (scoreAndVerifyContacts (prioritizeContacts [example_ceo, example_cto])
           (Some ''https://acme.com'') 0)"
    by simp
  from n k g l r q show ?thesis by simp
qed

text \<open>
  The claim as stated fails: a CTO with a LinkedIn link (score 95) is returned before a
  CEO without one (score 90), so the ranks of the returned list read 3, 1.
\<close>

theorem findKeyContacts_rank_order_counterexample:
  "map found_rank (findKeyContacts example_gather 0 ''Acme'' (Some ''https://acme.com'')) = [3, 1]
   \<and> \<not> sorted (map found_rank
          (findKeyContacts example_gather 0 ''Acme'' (Some ''https://acme.com'')))"
proof -
  have "map found_rank (findKeyContacts example_gather 0 ''Acme'' (Some ''https://acme.com''))
      = [3, 1]"
    by code_simp
  then show ?thesis by simp
qed

text \<open>
  C5.  When gathering ends without an exception and the list is empty after
  prioritization and scoring, \<open>findKeyContacts\<close> returns exactly two placeholders: a
  critical-priority \<open>CEO/Founder\<close> with quality score 40 and a high-priority
  \<open>CTO/VP Engineering\<close> with quality score 35, both with a null email and not
  recommended for outreach.  (\<open>scoreAndVerifyContacts_Nil_iff\<close>: the list is empty then
  exactly when nothing was gathered.)
\<close>

theorem findKeyContacts_placeholders:
  assumes "(if truthy websiteUrl then gather' (or_empty websiteUrl) else Inr []) = Inr cs"
    and "scoreAndVerifyContacts (prioritizeContacts cs) websiteUrl now = []"
  shows "findKeyContacts gather' now companyName websiteUrl
           = [Scored placeholder_ceo, Scored placeholder_cto]
    \<and> name placeholder_ceo = ''CEO/Founder'' \<and> priority placeholder_ceo = critical
    \<and> score (qualityScore placeholder_ceo) = 40 \<and> email placeholder_ceo = None
    \<and> recommendedForOutreach placeholder_ceo = False
    \<and> name placeholder_cto = ''CTO/VP Engineering'' \<and> priority placeholder_cto = high
    \<and> score (qualityScore placeholder_cto) = 35 \<and> email placeholder_cto = None
    \<and> recommendedForOutreach placeholder_cto = False"
proof -
  from assms have "findKeyContacts gather' now companyName websiteUrl
           = [Scored placeholder_ceo, Scored placeholder_cto]"
    by (simp add: findKeyContacts_def Let_def)
  then show ?thesis
    by (simp add: placeholder_ceo_def placeholder_cto_def)
qed

theorem findKeyContacts_placeholders_witness:
  "(if truthy (Some ''https://acme.com'') then nothing_gathered (or_empty (Some ''https://acme.com''))
    else Inr []) = Inr []
   \<and> scoreAndVerifyContacts (prioritizeContacts []) (Some ''https://acme.com'') 0 = []
   \<and> findKeyContacts nothing_gathered 0 ''Acme'' (Some ''https://acme.com'')
        = [Scored placeholder_ceo, Scored placeholder_cto]"
proof -
  have a: "(if truthy (Some ''https://acme.com'')
            then nothing_gathered (or_empty (Some ''https://acme.com'')) else Inr []) = Inr []"
    by (simp add: nothing_gathered_def)
  have b: "scoreAndVerifyContacts (prioritizeContacts []) (Some ''https://acme.com'') 0 = []"
    by (simp add: scoreAndVerifyContacts_def prioritizeContacts_def)
  from findKeyContacts_placeholders [where gather' = nothing_gathered and now = 0
      and companyName = "''Acme''" and websiteUrl = "Some ''https://acme.com''"
      and cs = "[]", OF a b] a b
  show ?thesis by simp
qed

section \<open>Properties of the element extractor\<close>

text \<open>
  An address guessed from the name is never empty, so the contact record built from it
  gets \<open>verified = !!email = true\<close>: whenever no \<open>mailto:\<close> link and no address in the
  text were found and the address was guessed, the contact is marked verified.
\<close>

lemma guessed_email_nonempty: "guessed_email n site = Some e \<Longrightarrow> e \<noteq> []"
  by (auto simp: guessed_email_def Let_def split: if_splits)

lemma guessed_email_marked_verified:
  assumes "extractContactFromElement el src site now = Some c"
    and "or_null (map_option (remove_first (Word ''mailto:'')) (mailto_href el)) = None"
    and "search emailPattern (el_text el) = None"
    and "guessed_email (extract_name el) site = Some e"
  shows "email c = Some e \<and> verified c"
proof -
  from assms(1) have n: "extract_name el \<noteq> []"
    by (auto simp: extractContactFromElement_def Let_def split: if_splits)
  from assms(2,3,4) n have e: "extract_email el (extract_name el) site = Some e"
    by (simp add: extract_email_def Let_def)
  from assms(4) have "e \<noteq> []" by (rule guessed_email_nonempty)
  with assms(1) e show ?thesis
    by (auto simp: extractContactFromElement_def Let_def split: if_splits)
qed

text \<open>
  C6 says that a contact whose address was guessed from its name and the website's domain
  has \<open>verified = false\<close>.  The code marks it verified: the card of Jane Doe on the
  team page of \<open>https://www.acme.com/\<close> has no address, the guess is
  \<open>jane.doe@acme.com\<close>, and the record has \<open>verified = True\<close>.
\<close>

theorem guessed_email_verified_example:
  "mailto_href example_element = None
   \<and> search emailPattern (el_text example_element) = None
   \<and> guessed_email (extract_name example_element) (Some ''https://www.acme.com/'')
        = Some ''jane.doe@acme.com''
   \<and> extractContactFromElement example_element website_team_page
         (Some ''https://www.acme.com/'') 0
       = Some \<lparr>name = ''Jane Doe'', title = ''Head of'', email = Some ''jane.doe@acme.com'',
                linkedin = None, source = website_team_page, priority = medium,
                verified = True, contact_note = None, extractedAt = DateMs 0\<rparr>"
  by code_simp

section \<open>Properties of the website resolver\<close>

text \<open>
  C8, as the code has it.  When the company name matches no entry of the alias table, the
  resolver goes through the four candidates \<open>https://{token}.com\<close>,
  \<open>https://www.{token}.com\<close>, \<open>https://{token}.io\<close>, \<open>https://www.{token}.io\<close> in
  this order and returns the first whose probe answers with status 200; an answer with
  any other status, an error and a timeout all move on to the next candidate; when no
  candidate answers 200 the result is null.  The function has a result for every input.
\<close>

theorem findCompanyWebsite_probes:
  assumes "known_match companyName = None"
  shows "findCompanyWebsite probe' companyName
       = find (\<lambda>domain. probe' domain = Responded 200)
           [''https://'' @ domainName companyName @ ''.com'',
            ''https://www.'' @ domainName companyName @ ''.com'',
            ''https://'' @ domainName companyName @ ''.io'',
            ''https://www.'' @ domainName companyName @ ''.io'']"
proof -
  have acc: "accepted p = (p = Responded 200)" for p
    by (cases p) (auto simp: accepted_def)
  have loop: "probe_loop probe' ds = find (\<lambda>domain. probe' domain = Responded 200) ds" for ds
    by (induction ds) (simp_all add: acc)
  show ?thesis
    by (simp only: findCompanyWebsite_def assms option.case loop possibleDomains_def)
qed

theorem findCompanyWebsite_probes_witness:
  "known_match ''Acme'' = None
   \<and> findCompanyWebsite example_probe_www ''Acme'' = Some ''https://www.acme.com''"
proof -
  have k: "known_match ''Acme'' = None" by code_simp
  have d: "domainName ''Acme'' = ''acme''" by code_simp
  from findCompanyWebsite_probes [OF k, of example_probe_www] d k show ?thesis
    by (simp add: example_probe_www_def)
qed

text \<open>
  The claim as stated fails: the first candidate answers with status 204, which is below
  400, and the resolver returns null instead of that candidate.
\<close>

theorem findCompanyWebsite_status_counterexample:
  "known_match ''Acme'' = None
   \<and> possibleDomains ''Acme'' ! 0 = ''https://acme.com''
   \<and> example_probe ''https://acme.com'' = Responded 204
   \<and> (204 :: nat) < 400
   \<and> findCompanyWebsite example_probe ''Acme'' = None"
  by code_simp

section \<open>Properties of batch research\<close>

text \<open>
  With a positive \<open>maxConcurrent\<close> the loop ends, having tried every company once, in
  the order of the input.
\<close>

lemma js_slice_chunk:
  assumes "0 \<le> i" "i < int (length xs)" "0 < m"
  shows "js_slice xs i (i + m) = take (nat m) (drop (nat i) xs)"
proof -
  have "take (nat (min (i + m) (int (length xs)) - i)) (drop (nat i) xs)
      = take (nat m) (drop (nat i) xs)"
  proof (cases "i + m \<le> int (length xs)")
    case True
    then show ?thesis by (simp add: min_def)
  next
    case False
    with assms have "nat (int (length xs) - i) = length (drop (nat i) xs)"
      and "length (drop (nat i) xs) \<le> nat m"
      by auto
    with False show ?thesis by (simp add: min_def)
  qed
  with assms show ?thesis
    by (simp add: js_slice_def Let_def min_def)
qed

lemma batch_loop_result:
  assumes "0 < m" "0 \<le> i"
  shows "batch_loop research m cs i res
       = Some (res @ map (attempt research) (drop (nat i) cs))"
  using assms(2)
proof (induction "length cs - nat i" arbitrary: i res rule: less_induct)
  case less
  show ?case
  proof (cases "i < int (length cs)")
    case False
    with less.prems show ?thesis
      by (subst batch_loop.simps) simp
  next
    case True
    let ?chunk = "map (attempt research) (take (nat m) (drop (nat i) cs))"
    from True less.prems assms(1) have "length cs - nat (i + m) < length cs - nat i"
      by auto
    moreover from less.prems assms(1) have "0 \<le> i + m" by simp
    ultimately have IH: "batch_loop research m cs (i + m) (res @ ?chunk)
        = Some ((res @ ?chunk) @ map (attempt research) (drop (nat (i + m)) cs))"
      by (rule less.hyps)
    from less.prems assms(1) have "drop (nat (i + m)) cs = drop (nat m) (drop (nat i) cs)"
      by (simp add: nat_add_distrib add.commute)
    then have "?chunk @ map (attempt research) (drop (nat (i + m)) cs)
        = map (attempt research)
            (take (nat m) (drop (nat i) cs) @ drop (nat m) (drop (nat i) cs))"
      by (simp only: map_append)
    then have "?chunk @ map (attempt research) (drop (nat (i + m)) cs)
        = map (attempt research) (drop (nat i) cs)"
      by (simp only: append_take_drop_id)
    with IH have "batch_loop research m cs (i + m) (res @ ?chunk)
        = Some (res @ map (attempt research) (drop (nat i) cs))"
      by simp
    with True less.prems assms(1) show ?thesis
      by (subst batch_loop.simps) (simp add: js_slice_chunk)
  qed
qed

lemma batchResearch_result:
  assumes "0 < m"
  shows "batchResearch research cs m
       = Some (sort_key (\<lambda>e. - entry_score e) (map (attempt research) cs))"
  using batch_loop_result [OF assms, of 0 research cs "[]"]
  by (simp add: batchResearch_def)

text \<open>
  C9, as the code has it.  For a positive \<open>maxConcurrent\<close>, \<open>batchResearch\<close> returns
  one entry per company: the result of a research that succeeded, or an error record for
  one that threw, the other companies being researched all the same.  The entries are
  sorted by descending total score, an error record counting as score 0, and entries of
  equal score keep the order of the input; so every error record comes after every entry
  with a positive score, and stands among the entries of score 0 where the input had it.
\<close>

theorem batchResearch_sorted:
  assumes "0 < maxConcurrent"
  shows "\<exists>out. batchResearch research cs maxConcurrent = Some out
    \<and> length out = length cs
    \<and> mset out = mset (map (attempt research) cs)
    \<and> (\<forall>c message. research c = Inl (Error message)
          \<longrightarrow> attempt research c = ResearchFailed c message)
    \<and> (\<forall>c result. research c = Inr result \<longrightarrow> attempt research c = Researched result c)
    \<and> sorted_wrt (\<lambda>a b. entry_score a \<ge> entry_score b) out
    \<and> (\<forall>k. filter (\<lambda>e. entry_score e = k) out
            = filter (\<lambda>e. entry_score e = k) (map (attempt research) cs))
    \<and> (\<forall>i j. i < length out \<and> j < length out \<and> is_failed (out ! i)
          \<and> 0 < entry_score (out ! j) \<longrightarrow> j < i)"
proof -
  define out where "out = sort_key (\<lambda>e. - entry_score e) (map (attempt research) cs)"
  have res: "batchResearch research cs maxConcurrent = Some out"
    unfolding out_def by (rule batchResearch_result [OF assms])
  have len: "length out = length cs" and ms: "mset out = mset (map (attempt research) cs)"
    by (simp_all add: out_def)
  have "sorted (map (\<lambda>e. - entry_score e) out)"
    unfolding out_def by (rule sorted_sort_key)
  then have desc: "sorted_wrt (\<lambda>a b. entry_score a \<ge> entry_score b) out"
    by (simp add: sorted_map)
  have stable: "filter (\<lambda>e. entry_score e = k) out
      = filter (\<lambda>e. entry_score e = k) (map (attempt research) cs)" for k
  proof -
    have "filter (\<lambda>e. - entry_score e = - k) out
        = filter (\<lambda>e. - entry_score e = - k) (map (attempt research) cs)"
      unfolding out_def by (rule sort_key_stable)
    then show ?thesis by simp
  qed
  have failed0: "entry_score e = 0" if "is_failed e" for e
    using that by (cases e) (simp_all add: is_failed_def)
  have last: "j < i"
    if "i < length out" "j < length out" "is_failed (out ! i)" "0 < entry_score (out ! j)"
    for i j
  proof (rule ccontr)
    assume "\<not> j < i"
    moreover from that(3,4) failed0 have "i \<noteq> j" by auto
    ultimately have "i < j" by simp
    with desc that(2) have "entry_score (out ! i) \<ge> entry_score (out ! j)"
      by (simp add: sorted_wrt_iff_nth_less)
    with that(3,4) failed0 show False by auto
  qed
  have a1: "attempt research c = ResearchFailed c message"
    if "research c = Inl (Error message)" for c message
    using that by (simp add: attempt_def)
  have a2: "attempt research c = Researched result c" if "research c = Inr result" for c result
    using that by (simp add: attempt_def)
  from res len ms desc stable last a1 a2 show ?thesis by blast
qed

lemma example_scores:
  "total_score (scoring (researchCompany example_world ''Beta'' None)) = 0"
  "total_score (scoring (researchCompany example_world ''Bubble'' None)) = 25"
  by code_simp+

theorem batchResearch_sorted_witness:
  "(0 :: int) < 3
   \<and> batchResearch example_research example_batch 3
       = Some [Researched (researchCompany example_world ''Bubble'' None) (''Bubble'', None),
               ResearchFailed (''Alpha'', None) ''boom'',
               Researched (researchCompany example_world ''Beta'' None) (''Beta'', None)]
   \<and> example_research (''Alpha'', None) = Inl (Error ''boom'')
   \<and> attempt example_research (''Alpha'', None) = ResearchFailed (''Alpha'', None) ''boom''
   \<and> 0 < entry_score
            (Researched (researchCompany example_world ''Bubble'' None) (''Bubble'', None))"
proof -
  have pos: "(0 :: int) < 3" by simp
  from batchResearch_sorted [OF pos, of example_research example_batch]
  obtain out where out: "batchResearch example_research example_batch 3 = Some out"
    and att: "\<forall>c message. example_research c = Inl (Error message)
          \<longrightarrow> attempt example_research c = ResearchFailed c message"
    by blast
  have a: "example_research (''Alpha'', None) = Inl (Error ''boom'')"
    by (simp add: example_research_def)
  with att have b: "attempt example_research (''Alpha'', None)
      = ResearchFailed (''Alpha'', None) ''boom''"
    by blast
  have "out = [Researched (researchCompany example_world ''Bubble'' None) (''Bubble'', None),
               ResearchFailed (''Alpha'', None) ''boom'',
               Researched (researchCompany example_world ''Beta'' None) (''Beta'', None)]"
    using out
    by (simp add: batchResearch_result example_batch_def b example_scores attempt_def
        example_research_def)
  with out a b pos show ?thesis by (simp add: example_scores)
qed

text \<open>
  The claim as stated fails: the error record of \<open>Alpha\<close> is returned before the result
  of \<open>Beta\<close>, whose research succeeded with total score 0.
\<close>

theorem batchResearch_errored_not_last_counterexample:
  "batchResearch example_research example_batch 3
     = Some [Researched (researchCompany example_world ''Bubble'' None) (''Bubble'', None),
             ResearchFailed (''Alpha'', None) ''boom'',
             Researched (researchCompany example_world ''Beta'' None) (''Beta'', None)]
   \<and> is_failed (ResearchFailed (''Alpha'', None) ''boom'')
   \<and> \<not> is_failed (Researched (researchCompany example_world ''Beta'' None) (''Beta'', None))"
  by (simp add: batchResearch_result example_batch_def example_research_def attempt_def
      example_scores is_failed_def)

section \<open>Properties of the platform-type classification\<close>













end
